theory Spec2Isabelle
  imports Complex_Main
begin

section \<open>Values exchanged with the libraries\<close>

text \<open>
  The exceptions of the Python program that the resolution pipeline can meet.
  \<open>OperationalError\<close> and \<open>DatabaseError\<close> stand for \<open>sqlite3.OperationalError\<close> and for
  every other subclass of \<open>sqlite3.Error\<close>; \<open>APIError\<close> is a failure of the reasoning-engine
  client.
\<close>

datatype exn =
    IndexError | KeyError | TypeError | NameError | UnboundLocalError | AttributeError
  | ValueError | JSONDecodeError | OperationalError | DatabaseError | APIError
  | FileNotFoundError | YAMLError

definition is_sqlite_error :: "exn \<Rightarrow> bool" where
  "is_sqlite_error e = (e = OperationalError \<or> e = DatabaseError)"

text \<open>
  A value of a tool-call argument after \<open>json.loads\<close>. The tool schema declares two strings
  and a boolean; nulls and integers are kept because \<open>arguments.get('stop') == True\<close>
  distinguishes them.
\<close>

datatype jvalue = JNull | JBool bool | JInt int | JStr string

text \<open>A Python \<open>dict\<close> with insertion order: an association list with distinct keys.\<close>

definition dict_get :: "('k \<times> 'v) list \<Rightarrow> 'k \<Rightarrow> 'v \<Rightarrow> 'v" where
  "dict_get d k dflt = (case map_of d k of None \<Rightarrow> dflt | Some v \<Rightarrow> v)"

fun dict_set :: "'k \<Rightarrow> 'v \<Rightarrow> ('k \<times> 'v) list \<Rightarrow> ('k \<times> 'v) list" where
  "dict_set k v [] = [(k, v)]"
| "dict_set k v ((k', v') # d) = (if k' = k then (k, v) # d else (k', v') # dict_set k v d)"

text \<open>\<open>sep.join(xs)\<close>\<close>

fun join_str :: "string \<Rightarrow> string list \<Rightarrow> string" where
  "join_str sep [] = []"
| "join_str sep [x] = x"
| "join_str sep (x # y # ys) = x @ sep @ join_str sep (y # ys)"

text \<open>\<open>str(n)\<close> for a nonnegative integer: its decimal digits.\<close>

function str_nat :: "nat \<Rightarrow> string" where
  "str_nat n =
     (if n < 10 then [char_of (48 + n)] else str_nat (n div 10) @ [char_of (48 + n mod 10)])"
  by pat_completeness auto
termination
  by (relation "measure (\<lambda>n. n)") auto

declare str_nat.simps [simp del]

section \<open>Tabular results\<close>

text \<open>
  A \<open>pandas.DataFrame\<close>: column labels, row labels and the rows of cells, as the frame
  holds them. The cell type is a parameter; \<open>str(cell_value)\<close> is passed to the formatter as
  \<open>str_cell\<close>.
\<close>

record 'c dataframe =
  columns :: "string list"
  index :: "nat list"
  cells :: "'c list list"

text \<open>\<open>pd.DataFrame()\<close>\<close>

definition DataFrame_empty :: "'c dataframe" where
  "DataFrame_empty = \<lparr>columns = [], index = [], cells = []\<rparr>"

text \<open>
  \<open>pd.DataFrame(result, columns=columns)\<close> for a list of row tuples: the rows are labelled
  \<open>0..n-1\<close>; a row whose width is not the number of columns raises \<open>ValueError\<close>. The
  constructor infers a dtype for every column and converts the cells to it (an integer
  column that holds a NULL becomes a float column): \<open>infer\<close> is that conversion of the
  fetched rows, a parameter.
\<close>

definition pd_DataFrame ::
  "('c list list \<Rightarrow> 'c list list) \<Rightarrow> 'c list list \<Rightarrow> string list \<Rightarrow> exn + 'c dataframe" where
  "pd_DataFrame infer result cols =
     (if list_all (\<lambda>row. length row = length cols) result
      then Inr \<lparr>columns = cols, index = [0..<length result], cells = infer result\<rparr>
      else Inl ValueError)"

text \<open>\<open>DataFrame.empty\<close>: some axis has length 0.\<close>

definition df_empty :: "'c dataframe \<Rightarrow> bool" where
  "df_empty data = (length (columns data) = 0 \<or> length (index data) = 0)"

subsection \<open>Query Executor: \<open>execute_sql_query\<close>\<close>

text \<open>
  The relational store is a state \<open>'s\<close>; \<open>run db q\<close> is everything inside the \<open>with\<close> block
  up to \<open>fetchall\<close>: opening the connection, \<open>cursor.execute(sql_query)\<close>, the rows, and
  \<open>cursor.description\<close> as the list of column names (\<open>None\<close> when the statement has no result
  set). It yields an exception or the rows, and the store as the connection leaves it.
  \<open>except Exception\<close> turns every failure into \<open>pd.DataFrame()\<close>.
\<close>

type_synonym ('s, 'c) sqlite =
  "'s \<Rightarrow> jvalue \<Rightarrow> (exn + 'c list list \<times> string list option) \<times> 's"

definition execute_sql_query ::
  "('s, 'c) sqlite \<Rightarrow> ('c list list \<Rightarrow> 'c list list) \<Rightarrow> 's \<Rightarrow> jvalue \<Rightarrow> jvalue \<Rightarrow> jvalue
     \<Rightarrow> 'c dataframe \<times> 's" where
  "execute_sql_query run infer db sql_query query_explanation stop =
     (case run db sql_query of
        (Inl e, db') \<Rightarrow> (DataFrame_empty, db')
      | (Inr (result, description), db') \<Rightarrow>
          (let cols = (case description of Some d \<Rightarrow> d | None \<Rightarrow> []) in
           case pd_DataFrame infer result cols of
             Inl e \<Rightarrow> (DataFrame_empty, db')
           | Inr result_df \<Rightarrow> (result_df, db')))"

subsection \<open>Result Formatter: \<open>format_dataframe\<close>\<close>

definition format_dataframe ::
  "('c \<Rightarrow> string) \<Rightarrow> 'c dataframe \<Rightarrow> string \<Rightarrow> string \<Rightarrow> bool \<Rightarrow> bool \<Rightarrow> string" where
  "format_dataframe str_cell data row_separator col_separator add_headers add_indices =
     (if length (columns data) = 0 then []
      else
        let header_rows =
              (if add_headers
               then [(if add_indices then col_separator else []) @
                     join_str col_separator (columns data)]
               else []);
            data_rows =
              map (\<lambda>(i, row).
                     (if add_indices then str_nat i @ col_separator else []) @
                     join_str col_separator (map str_cell row))
                  (zip (index data) (cells data))
        in join_str row_separator (header_rows @ data_rows))"

section \<open>Example Retriever: \<open>get_relevant_examples\<close>\<close>

text \<open>
  A value of an example's field as \<open>yaml.safe_load\<close> returns it: null, a string or a sequence
  of strings. An example is a dict from field names to such values.
\<close>

datatype yvalue = YNull | YStr string | YSeq "string list"

type_synonym example = "(string \<times> yvalue) list"

text \<open>
  \<open>set(v)\<close>: the elements of a sequence, the one-character strings of a string;
  \<open>set(None)\<close> raises \<open>TypeError\<close>. The set is represented by a list of its elements.
\<close>

fun py_set :: "yvalue \<Rightarrow> exn + string list" where
  "py_set YNull = Inl TypeError"
| "py_set (YStr s) = Inr (map (\<lambda>c. [c]) s)"
| "py_set (YSeq xs) = Inr xs"

text \<open>\<open>{k: v for k, v in example.items() if k != "relevant_tables"}\<close>\<close>

definition drop_relevant_tables :: "example \<Rightarrow> example" where
  "drop_relevant_tables example = filter (\<lambda>(k, v). k \<noteq> ''relevant_tables'') example"

text \<open>The \<open>for example in examples\<close> loop, with \<open>filtered_examples\<close> as accumulator.\<close>

fun filter_examples :: "string list \<Rightarrow> example list \<Rightarrow> example list \<Rightarrow> exn + example list" where
  "filter_examples target [] filtered_examples = Inr filtered_examples"
| "filter_examples target (example # rest) filtered_examples =
     (case py_set (dict_get example ''relevant_tables'' (YSeq [])) of
        Inl e \<Rightarrow> Inl e
      | Inr example_tables \<Rightarrow>
          if set example_tables \<subseteq> set target
          then filter_examples target rest (filtered_examples @ [drop_relevant_tables example])
          else filter_examples target rest filtered_examples)"

text \<open>
  \<open>read_yaml path\<close> is \<open>open\<close> followed by \<open>yaml.safe_load\<close>: an exception, or the document
  (\<open>None\<close> for an empty file). \<open>FileNotFoundError\<close> and \<open>YAMLError\<close> give the empty list.
\<close>

definition get_relevant_examples ::
  "(string \<Rightarrow> exn + example list option) \<Rightarrow> string \<Rightarrow> string list \<Rightarrow> exn + example list" where
  "get_relevant_examples read_yaml sql_examples_path target_relevant_tables =
     (case read_yaml sql_examples_path of
        Inl e \<Rightarrow> (if e = FileNotFoundError \<or> e = YAMLError then Inr [] else Inl e)
      | Inr doc \<Rightarrow>
          filter_examples target_relevant_tables
            (case doc of None \<Rightarrow> [] | Some examples \<Rightarrow> examples) [])"

section \<open>Metadata store\<close>

text \<open>
  The table \<open>market_tables\<close> of the metadata database. \<open>connect_failure\<close> is the exception
  of \<open>sqlite3.connect\<close> (if any), \<open>query_failure\<close> that of \<open>cursor.execute\<close>. The schema
  column is taken as non-null text; the description may be NULL.
\<close>

record market_row =
  market :: string
  table_name :: string
  table_schema :: string
  table_description :: "string option"

record metadata_store =
  connect_failure :: "exn option"
  query_failure :: "exn option"
  market_tables :: "market_row list"

text \<open>\<open>table_description or "No comment available."\<close>\<close>

definition description_or_default :: "string option \<Rightarrow> string" where
  "description_or_default d =
     (case d of None \<Rightarrow> ''No comment available.''
      | Some t \<Rightarrow> (if t = [] then ''No comment available.'' else t))"

text \<open>
  \<open>get_table_info\<close>: the catalog of a market, a dict from table name to its schema and
  summary. Connecting and querying are inside the \<open>try\<close>; \<open>sqlite3.Error\<close> leaves the
  dict empty, any other exception propagates.
\<close>

definition get_table_info ::
  "metadata_store \<Rightarrow> string \<Rightarrow> exn + (string \<times> string \<times> string) list" where
  "get_table_info store mkt =
     (case connect_failure store of
        Some e \<Rightarrow> (if is_sqlite_error e then Inr [] else Inl e)
      | None \<Rightarrow>
          (case query_failure store of
             Some e \<Rightarrow> (if is_sqlite_error e then Inr [] else Inl e)
           | None \<Rightarrow>
               Inr (fold (\<lambda>r table_info.
                            dict_set (table_name r)
                              (table_schema r, description_or_default (table_description r))
                              table_info)
                      (filter (\<lambda>r. market r = mkt) (market_tables store)) [])))"

text \<open>
  \<open>get_table_schemas\<close>: the connection is opened outside any \<open>try\<close>; inside the loop only
  \<open>sqlite3.OperationalError\<close> is caught. \<open>fetchone\<close> is the first row of that name.
\<close>

fun fetch_schemas ::
  "metadata_store \<Rightarrow> string list \<Rightarrow> (string \<times> string) list \<Rightarrow> exn + (string \<times> string) list" where
  "fetch_schemas store [] all_schemas = Inr all_schemas"
| "fetch_schemas store (t # ts) all_schemas =
     (case query_failure store of
        Some e \<Rightarrow> (if e = OperationalError then fetch_schemas store ts all_schemas else Inl e)
      | None \<Rightarrow>
          (case find (\<lambda>r. table_name r = t) (market_tables store) of
             Some r \<Rightarrow> fetch_schemas store ts (dict_set t (table_schema r) all_schemas)
           | None \<Rightarrow> fetch_schemas store ts all_schemas))"

definition get_table_schemas ::
  "metadata_store \<Rightarrow> string list \<Rightarrow> exn + (string \<times> string) list" where
  "get_table_schemas store table_names =
     (case connect_failure store of
        Some e \<Rightarrow> Inl e
      | None \<Rightarrow> fetch_schemas store table_names [])"

text \<open>
  \<open>SELECT DISTINCT\<close>: every row once, at the place of its first occurrence.
\<close>

fun distinct_rows :: "'a list \<Rightarrow> 'a list \<Rightarrow> 'a list" where
  "distinct_rows seen [] = []"
| "distinct_rows seen (x # xs) =
     (if x \<in> set seen then distinct_rows seen xs else x # distinct_rows (x # seen) xs)"

text \<open>
  \<open>get_table_comments_of_rel_tables\<close>: the distinct pairs of name and description of the
  listed tables, put into a dict in that order (a later description of a name replaces an
  earlier one).
\<close>

definition get_table_comments_of_rel_tables ::
  "metadata_store \<Rightarrow> string list \<Rightarrow> exn + (string \<times> string option) list" where
  "get_table_comments_of_rel_tables store rel_tables =
     (if rel_tables = [] then Inr []
      else
        (case connect_failure store of
           Some e \<Rightarrow> (if is_sqlite_error e then Inr [] else Inl e)
         | None \<Rightarrow>
             (case query_failure store of
                Some e \<Rightarrow> (if is_sqlite_error e then Inr [] else Inl e)
              | None \<Rightarrow>
                  Inr (fold (\<lambda>(n, d) table_comments. dict_set n d table_comments)
                         (distinct_rows []
                            (map (\<lambda>r. (table_name r, table_description r))
                               (filter (\<lambda>r. table_name r \<in> set rel_tables)
                                  (market_tables store))))
                         []))))"

section \<open>Conversation with the reasoning engine\<close>

text \<open>
  One entry of a round: the dict \<open>{"sql_query": ..., "result": ...}\<close>. The display form
  holds the delimited text, the machine form the serialised result.
\<close>

record 'r entry =
  sql_query :: jvalue
  result :: 'r

text \<open>What \<open>eval\<close> of a tool call returns: a DataFrame or some other value.\<close>

datatype 'c pyresult = PyDataFrame "'c dataframe" | PyOther jvalue

text \<open>
  \<open>result.to_json(orient="records")\<close> and \<open>json.dumps(result)\<close>: the serialised text is
  represented by the value it serialises.
\<close>

datatype 'c serialized = ToJsonRecords "'c dataframe" | JsonDumps jvalue

record table_detail =
  detail_name :: string
  detail_description :: "string option"
  detail_schema :: string

text \<open>
  The content of a message. A template filled by \<open>str.format\<close>, and the \<open>json.dumps\<close> of a
  round, are represented by the template and the values put into it.
\<close>

datatype msg_content =
    Template string
  | TableIdentifierRequest string string "(string \<times> string \<times> string) list"
  | QueryGenerationContext string "example list" "table_detail list"
  | QueryGenerationRequest string string "(string \<times> string) list list option"
  | IterationReport nat "string entry list"

type_synonym message = "string \<times> msg_content"

record usage =
  completion_tokens :: nat
  prompt_tokens :: nat

record tool_call =
  function_name :: string
  arguments :: string

record response =
  tool_calls :: "tool_call list option"
  token_usage :: usage

text \<open>
  Everything outside the module: the two prompt constants of \<open>prompts\<close> (role and template
  of each message) and the path \<open>SQL_EXAMPLES\<close>, the metadata store, the file system, the
  reasoning engine for the two kinds of request, \<open>json.loads\<close> on the relevance answer (an
  object of string arrays, by the strict response schema) and on tool arguments (an
  object), the relational store, the dtype inference of \<open>pd.DataFrame\<close>, \<open>eval\<close> of a call
  whose name is not \<open>execute_sql_query\<close>, \<open>str\<close> on a cell, the exception (if any) that the
  JSON encoder of \<open>DataFrame.to_json\<close> raises on the cells of a frame, and the exception (if
  any) of the pipeline's own \<open>sqlite3.connect\<close>.
\<close>

record ('s, 'c) world =
  table_identifier_prompt :: "(string \<times> string) list"
  sql_query_generation_prompt :: "(string \<times> string) list"
  sql_examples :: string
  metadata :: metadata_store
  read_yaml :: "string \<Rightarrow> exn + example list option"
  relevance_engine :: "message list \<Rightarrow> exn + string \<times> usage"
  query_engine :: "message list \<Rightarrow> exn + response"
  loads_tables :: "string \<Rightarrow> exn + (string \<times> string list) list"
  loads_arguments :: "string \<Rightarrow> exn + (string \<times> jvalue) list"
  sqlite_run :: "('s, 'c) sqlite"
  infer_dtypes :: "'c list list \<Rightarrow> 'c list list"
  eval_other :: "string \<Rightarrow> (string \<times> jvalue) list \<Rightarrow> 's \<Rightarrow> exn + 'c pyresult \<times> 's"
  str_cell :: "'c \<Rightarrow> string"
  to_json_error :: "'c dataframe \<Rightarrow> exn option"
  analytical_connect :: "exn option"

subsection \<open>Table Relevance Selector: \<open>get_relevant_tables\<close>\<close>

definition relevance_cost :: "usage \<Rightarrow> real" where
  "relevance_cost u =
     ((real (completion_tokens u) / 1000000) * 15 + (real (prompt_tokens u) / 1000000) * 5)
       * 83.52"

definition get_relevant_tables ::
  "('s, 'c) world \<Rightarrow> string \<Rightarrow> string \<Rightarrow> exn + string \<times> usage \<times> real" where
  "get_relevant_tables W user_input mkt =
     (case get_table_info (metadata W) mkt of
        Inl e \<Rightarrow> Inl e
      | Inr table_info \<Rightarrow>
          (case table_identifier_prompt W of
             m0 # (role1, template1) # ms \<Rightarrow>
               (case relevance_engine W
                       ((fst m0, Template (snd m0)) #
                        (role1, TableIdentifierRequest template1 user_input table_info) #
                        map (\<lambda>(r, t). (r, Template t)) ms) of
                  Inl e \<Rightarrow> Inl e
                | Inr (answer, u) \<Rightarrow> Inr (answer, u, relevance_cost u))
           | _ \<Rightarrow> Inl IndexError))"

section \<open>Tool Dispatch Loop: \<open>generate_sql_query_multi_tables\<close>\<close>

definition round_cost :: "usage \<Rightarrow> real" where
  "round_cost u =
     ((real (completion_tokens u) / 1000000) * 10 + (real (prompt_tokens u) / 1000000) * 2.5)
       * 83.52"

text \<open>\<open>arguments.get('stop') == True\<close>: Python's \<open>1 == True\<close> holds as well.\<close>

fun is_True :: "jvalue option \<Rightarrow> bool" where
  "is_True (Some (JBool b)) = b"
| "is_True (Some (JInt i)) = (i = 1)"
| "is_True _ = False"

text \<open>
  \<open>eval(f"{function_name}(**{arguments})")\<close>. For \<open>execute_sql_query\<close> the keyword
  arguments are bound to the signature: an unknown keyword or a missing \<open>sql_query\<close> or
  \<open>query_explanation\<close> raises \<open>TypeError\<close>, \<open>stop\<close> defaults to \<open>False\<close>. Any other name is
  left to \<open>eval_other\<close>.
\<close>

definition eval_call ::
  "('s, 'c) world \<Rightarrow> string \<Rightarrow> (string \<times> jvalue) list \<Rightarrow> 's \<Rightarrow> exn + 'c pyresult \<times> 's" where
  "eval_call W fname args db =
     (if fname = ''execute_sql_query''
      then
        (if list_ex (\<lambda>(k, v). k \<notin> {''sql_query'', ''query_explanation'', ''stop''}) args
         then Inl TypeError
         else
           (case map_of args ''sql_query'' of
              None \<Rightarrow> Inl TypeError
            | Some q \<Rightarrow>
                (case map_of args ''query_explanation'' of
                   None \<Rightarrow> Inl TypeError
                 | Some expl \<Rightarrow>
                     (case execute_sql_query (sqlite_run W) (infer_dtypes W) db q expl
                             (dict_get args ''stop'' (JBool False)) of
                        (result_df, db') \<Rightarrow> Inr (PyDataFrame result_df, db')))))
      else eval_other W fname args db)"

text \<open>
  The machine form of one result. \<open>result.to_json(orient="records")\<close> raises \<open>ValueError\<close>
  when two columns of the frame have the same name, and whatever the JSON encoder raises
  on the cells (\<open>encoder_error\<close>); nothing around it catches either. \<open>json.dumps\<close> of a value
  that is not a DataFrame succeeds on the values modelled here.
\<close>

definition serializable_result_db ::
  "('c dataframe \<Rightarrow> exn option) \<Rightarrow> 'c pyresult \<Rightarrow> exn + 'c serialized" where
  "serializable_result_db encoder_error res =
     (case res of
        PyDataFrame df \<Rightarrow>
          (if \<not> distinct (columns df) then Inl ValueError
           else
             (case encoder_error df of
                Some e \<Rightarrow> Inl e
              | None \<Rightarrow> Inr (ToJsonRecords df)))
      | PyOther v \<Rightarrow> Inr (JsonDumps v))"

text \<open>The display form of one result.\<close>

definition serializable_result :: "('c \<Rightarrow> string) \<Rightarrow> 'c pyresult \<Rightarrow> string" where
  "serializable_result str_of res =
     (case res of
        PyDataFrame df \<Rightarrow>
          (if \<not> df_empty df
           then format_dataframe str_of df [CHR 0x0A] [CHR 0x09] True False
           else [])
      | PyOther v \<Rightarrow> [])"

text \<open>
  The \<open>for tool_call in tool_calls\<close> loop. The accumulator holds \<open>iteration_results\<close>,
  \<open>iteration_results_db\<close>, \<open>iteration_stop_signals\<close> and the relational store. The machine
  form is computed first, then the display form, then \<open>arguments['sql_query']\<close> is read.
\<close>

type_synonym ('s, 'c) iteration =
  "string entry list \<times> 'c serialized entry list \<times> bool list \<times> 's"

fun run_tool_calls ::
  "('s, 'c) world \<Rightarrow> tool_call list \<Rightarrow> ('s, 'c) iteration \<Rightarrow> exn + ('s, 'c) iteration" where
  "run_tool_calls W [] acc = Inr acc"
| "run_tool_calls W (tc # tcs)
     (iteration_results, iteration_results_db, iteration_stop_signals, db) =
     (case loads_arguments W (arguments tc) of
        Inl e \<Rightarrow> Inl e
      | Inr args \<Rightarrow>
          (case eval_call W (function_name tc) args db of
             Inl e \<Rightarrow> Inl e
           | Inr (res, db') \<Rightarrow>
               (case serializable_result_db (to_json_error W) res of
                  Inl e \<Rightarrow> Inl e
                | Inr machine \<Rightarrow>
                    (case map_of args ''sql_query'' of
                       None \<Rightarrow> Inl KeyError
                     | Some q \<Rightarrow>
                         run_tool_calls W tcs
                           (iteration_results @
                              [\<lparr>sql_query = q, result = serializable_result (str_cell W) res\<rparr>],
                            iteration_results_db @ [\<lparr>sql_query = q, result = machine\<rparr>],
                            iteration_stop_signals @ [is_True (map_of args ''stop'')],
                            db')))))"

text \<open>
  The variables of the loop. \<open>cost\<close> is unbound (\<open>None\<close>) until the first round has assigned
  it. The timers are left out: they read the wall clock and no property below is about them.
\<close>

record ('s, 'c) loop_state =
  stop :: bool
  formatted_SQL_prompt :: "message list"
  all_results :: "string entry list list"
  all_results_db :: "'c serialized entry list list"
  cost :: "real option"
  store :: 's

text \<open>The body of the \<open>for count in range(1, 6)\<close> loop after the \<open>if stop: break\<close> test.\<close>

definition run_round ::
  "('s, 'c) world \<Rightarrow> nat \<Rightarrow> ('s, 'c) loop_state \<Rightarrow> exn + ('s, 'c) loop_state" where
  "run_round W count st =
     (case query_engine W (formatted_SQL_prompt st) of
        Inl e \<Rightarrow> Inl e
      | Inr resp \<Rightarrow>
          (case tool_calls resp of
             None \<Rightarrow> Inl TypeError
           | Some tcs \<Rightarrow>
               (case run_tool_calls W tcs ([], [], [], store st) of
                  Inl e \<Rightarrow> Inl e
                | Inr (iteration_results, iteration_results_db, iteration_stop_signals, db') \<Rightarrow>
                    Inr \<lparr>stop = (if list_ex (\<lambda>b. b) iteration_stop_signals then True else stop st),
                         formatted_SQL_prompt = formatted_SQL_prompt st @
                           [(''assistant'', IterationReport count iteration_results)],
                         all_results = all_results st @ [iteration_results],
                         all_results_db = all_results_db st @ [iteration_results_db],
                         cost = Some (round_cost (token_usage resp)),
                         store = db'\<rparr>)))"

text \<open>\<open>for count in counts: if stop: break; ...\<close>\<close>

fun for_rounds ::
  "('s, 'c) world \<Rightarrow> nat list \<Rightarrow> ('s, 'c) loop_state \<Rightarrow> exn + ('s, 'c) loop_state" where
  "for_rounds W [] st = Inr st"
| "for_rounds W (count # counts) st =
     (if stop st then Inr st
      else
        (case run_round W count st of
           Inl e \<Rightarrow> Inl e
         | Inr st' \<Rightarrow> for_rounds W counts st'))"

text \<open>
  Context Assembler: one detail per selected table, with the placeholders of
  \<open>dict.get\<close> for a table the metadata store does not know.
\<close>

definition table_details ::
  "(string \<times> string) list \<Rightarrow> (string \<times> string option) list \<Rightarrow> string list \<Rightarrow> table_detail list" where
  "table_details table_schemas table_descriptions rel_tables =
     map (\<lambda>t. \<lparr>detail_name = t,
               detail_description =
                 dict_get table_descriptions t (Some ''No description available.''),
               detail_schema = dict_get table_schemas t ''No schema available.''\<rparr>)
       rel_tables"

text \<open>
  The function returns \<open>all_results_db, all_results\<close>, the two timers (left out) and \<open>cost\<close>;
  reading \<open>cost\<close> while it is unbound raises \<open>UnboundLocalError\<close>.
\<close>

definition generate_sql_query_multi_tables ::
  "('s, 'c) world \<Rightarrow> string \<Rightarrow> (string \<times> string) list list option \<Rightarrow> string \<Rightarrow> string list \<Rightarrow> 's
     \<Rightarrow> exn + 'c serialized entry list list \<times> string entry list list \<times> real" where
  "generate_sql_query_multi_tables W user_input keywords market_type rel_tables db =
     (case get_table_schemas (metadata W) rel_tables of
        Inl e \<Rightarrow> Inl e
      | Inr table_schemas \<Rightarrow>
     (case get_table_comments_of_rel_tables (metadata W) rel_tables of
        Inl e \<Rightarrow> Inl e
      | Inr table_descriptions \<Rightarrow>
     (case get_relevant_examples (read_yaml W) (sql_examples W) rel_tables of
        Inl e \<Rightarrow> Inl e
      | Inr examples \<Rightarrow>
     (case sql_query_generation_prompt W of
        (role0, template0) # (role1, template1) # ms \<Rightarrow>
          (case for_rounds W [1..<6]
                  \<lparr>stop = False,
                   formatted_SQL_prompt =
                     (role0, QueryGenerationContext template0 examples
                               (table_details table_schemas table_descriptions rel_tables)) #
                     (role1, QueryGenerationRequest template1 user_input keywords) #
                     map (\<lambda>(r, t). (r, Template t)) ms,
                   all_results = [],
                   all_results_db = [],
                   cost = None,
                   store = db\<rparr> of
             Inl e \<Rightarrow> Inl e
           | Inr st \<Rightarrow>
               (case cost st of
                  None \<Rightarrow> Inl UnboundLocalError
                | Some c \<Rightarrow> Inr (all_results_db st, all_results st, c)))
      | _ \<Rightarrow> Inl IndexError))))"

section \<open>Accounting and Error Recorder: \<open>sql_pipeline\<close>\<close>

text \<open>
  The block that resolves \<open>rel_tables\<close>: when the caller gave none (\<open>None\<close> or an empty list)
  the engine's answer is parsed and its field \<open>relevant_tables\<close> taken, with \<open>[]\<close> as
  default. The second component is \<open>rel_tables_check\<close>.
\<close>

definition select_rel_tables ::
  "('s, 'c) world \<Rightarrow> string \<Rightarrow> string \<Rightarrow> string list option \<Rightarrow> exn + string list \<times> bool" where
  "select_rel_tables W user_input market_type rel_tables =
     (if rel_tables = None \<or> rel_tables = Some []
      then
        (case get_relevant_tables W user_input market_type of
           Inl e \<Rightarrow> Inl e
         | Inr (answer, u, c) \<Rightarrow>
             (case loads_tables W answer of
                Inl e \<Rightarrow> Inl e
              | Inr obj \<Rightarrow> Inr (dict_get obj ''relevant_tables'' [], True)))
      else Inr (case rel_tables of Some ts \<Rightarrow> ts | None \<Rightarrow> [], False))"

text \<open>
  What the caller receives: the tuple of the success path (timers left out), or the tuple
  \<open>(None, 0)\<close> of the failure path.
\<close>

datatype 'c pipeline_result =
    Completed "'c serialized entry list list" "string entry list list" bool
  | Sentinel

text \<open>One record of \<open>sql_errors.txt\<close>: the question, the rounds and the trace.\<close>

record log_record =
  logged_input :: string
  logged_results :: "string entry list list"
  logged_error :: exn

text \<open>
  The \<open>try\<close> block. Its first component is the binding of the local variable \<open>all_results\<close>
  when the block is left: the only assignment to it is the one that unpacks the result of
  \<open>generate_sql_query_multi_tables\<close>, right before \<open>return\<close>.
\<close>

definition pipeline_body ::
  "('s, 'c) world \<Rightarrow> string \<Rightarrow> (string \<times> string) list list option \<Rightarrow> string \<Rightarrow> string list option \<Rightarrow> 's
     \<Rightarrow> string entry list list option \<times> (exn + 'c pipeline_result)" where
  "pipeline_body W user_input keywords market_type rel_tables db =
     (case select_rel_tables W user_input market_type rel_tables of
        Inl e \<Rightarrow> (None, Inl e)
      | Inr (tables, rel_tables_check) \<Rightarrow>
          (case generate_sql_query_multi_tables W user_input keywords market_type tables db of
             Inl e \<Rightarrow> (None, Inl e)
           | Inr (results_db, results, c) \<Rightarrow>
               (Some results, Inr (Completed results_db results rel_tables_check))))"

text \<open>
  The \<open>except Exception\<close> handler: building \<open>error_message\<close> reads \<open>all_results\<close>, which
  raises \<open>UnboundLocalError\<close> when the variable is unbound; otherwise one record is
  appended to the log and \<open>(None, 0)\<close> returned.
\<close>

definition pipeline_handler ::
  "string \<Rightarrow> string entry list list option \<Rightarrow> exn \<Rightarrow> log_record list
     \<Rightarrow> log_record list \<times> (exn + 'c pipeline_result)" where
  "pipeline_handler user_input all_results_local e error_log =
     (case all_results_local of
        None \<Rightarrow> (error_log, Inl UnboundLocalError)
      | Some results \<Rightarrow>
          (error_log @ [\<lparr>logged_input = user_input, logged_results = results, logged_error = e\<rparr>],
           Inr Sentinel))"

text \<open>
  \<open>sql_pipeline\<close>: the connection to the relational store is opened before the \<open>try\<close>;
  the \<open>finally\<close> block only closes it. The result is the diagnostic log afterwards and
  what the caller receives: a raised exception or a returned value.
\<close>

definition sql_pipeline ::
  "('s, 'c) world \<Rightarrow> string \<Rightarrow> (string \<times> string) list list option \<Rightarrow> string \<Rightarrow> string list option
     \<Rightarrow> log_record list \<Rightarrow> 's \<Rightarrow> log_record list \<times> (exn + 'c pipeline_result)" where
  "sql_pipeline W user_input keywords market_type rel_tables error_log db =
     (case analytical_connect W of
        Some e \<Rightarrow> (error_log, Inl e)
      | None \<Rightarrow>
          (case pipeline_body W user_input keywords market_type rel_tables db of
             (all_results_local, Inr r) \<Rightarrow> (error_log, Inr r)
           | (all_results_local, Inl e) \<Rightarrow> pipeline_handler user_input all_results_local e error_log))"

section \<open>Notions used to state the properties\<close>

text \<open>
  The set of tables an example requires, as the filter computes it (the elements of its
  field \<open>relevant_tables\<close>, none when the field is absent).
\<close>

definition required_tables :: "example \<Rightarrow> string list" where
  "required_tables ex =
     (case py_set (dict_get ex ''relevant_tables'' (YSeq [])) of Inl e \<Rightarrow> [] | Inr ts \<Rightarrow> ts)"

text \<open>
  A tool call as the tool schema prescribes it: the tool \<open>execute_sql_query\<close> with arguments
  that parse to an object holding \<open>sql_query\<close>, \<open>query_explanation\<close> and at most \<open>stop\<close>.
\<close>

definition well_formed_call :: "('s, 'c) world \<Rightarrow> tool_call \<Rightarrow> bool" where
  "well_formed_call W tc =
     (function_name tc = ''execute_sql_query'' \<and>
      (case loads_arguments W (arguments tc) of
         Inl e \<Rightarrow> False
       | Inr args \<Rightarrow>
           \<not> list_ex (\<lambda>(k, v). k \<notin> {''sql_query'', ''query_explanation'', ''stop''}) args \<and>
           map_of args ''sql_query'' \<noteq> None \<and> map_of args ''query_explanation'' \<noteq> None))"

text \<open>The stop flag of one invocation, as the loop reads it.\<close>

definition call_sets_stop :: "('s, 'c) world \<Rightarrow> tool_call \<Rightarrow> bool" where
  "call_sets_stop W tc =
     (case loads_arguments W (arguments tc) of
        Inl e \<Rightarrow> False
      | Inr args \<Rightarrow> is_True (map_of args ''stop''))"

text \<open>The query of one invocation, as the loop records it.\<close>

definition call_query :: "('s, 'c) world \<Rightarrow> tool_call \<Rightarrow> jvalue" where
  "call_query W tc =
     (case loads_arguments W (arguments tc) of
        Inl e \<Rightarrow> JNull
      | Inr args \<Rightarrow> dict_get args ''sql_query'' JNull)"

subsection \<open>Concrete scenarios\<close>

text \<open>
  A library of three worked examples, a metadata store with the table \<open>IncomeStmt\<close> of the
  market \<open>finance\<close>, and a relational store that answers one query and rejects every other
  statement. The texts handed to \<open>json.loads\<close> are abbreviated to a word each.
\<close>

definition example_library :: "example list" where
  "example_library =
     [[(''question'', YStr ''What is EBITDA in 2021?''),
       (''sql_query'', YStr ''SELECT Value FROM IncomeStmt''),
       (''relevant_tables'', YSeq [''IncomeStmt''])],
      [(''question'', YStr ''What is free cash flow?''),
       (''sql_query'', YStr ''SELECT Value FROM CashFlow''),
       (''relevant_tables'', YSeq [''CashFlow'', ''IncomeStmt''])],
      [(''question'', YStr ''How many rows?''),
       (''sql_query'', YStr ''SELECT 1'')]]"

definition scenario_metadata :: metadata_store where
  "scenario_metadata =
     \<lparr>connect_failure = None, query_failure = None,
      market_tables =
        [\<lparr>market = ''finance'', table_name = ''IncomeStmt'',
          table_schema = ''LineItem TEXT, Year TEXT, Value REAL'',
          table_description = Some ''Income statement lines by year''\<rparr>]\<rparr>"

definition scenario_arguments :: "string \<Rightarrow> exn + (string \<times> jvalue) list" where
  "scenario_arguments text =
     (if text = ''run'' then
        Inr [(''sql_query'', JStr ''SELECT Year, Value FROM IncomeStmt''),
             (''query_explanation'', JStr ''EBITDA by year''),
             (''stop'', JBool False)]
      else if text = ''last'' then
        Inr [(''sql_query'', JStr ''SELECT Year, Value FROM IncomeStmt''),
             (''query_explanation'', JStr ''EBITDA by year''),
             (''stop'', JBool True)]
      else if text = ''typo'' then
        Inr [(''sql_query'', JStr ''SELEC Year FROM IncomeStmt''),
             (''query_explanation'', JStr ''mistyped'')]
      else Inl JSONDecodeError)"

definition scenario_sqlite :: "(unit, string) sqlite" where
  "scenario_sqlite db q =
     (if q = JStr ''SELECT Year, Value FROM IncomeStmt''
      then (Inr ([[''2021'', ''192''], [''2022'', ''210'']], Some [''Year'', ''Value'']), db)
      else (Inl OperationalError, db))"

definition scenario_tables :: "string \<Rightarrow> exn + (string \<times> string list) list" where
  "scenario_tables answer =
     (if answer = ''ghost'' then Inr [(''relevant_tables'', [''Ghost''])]
      else if answer = ''income'' then Inr [(''relevant_tables'', [''IncomeStmt''])]
      else Inl JSONDecodeError)"

definition scenario ::
  "metadata_store \<Rightarrow> string \<Rightarrow> (message list \<Rightarrow> exn + response) \<Rightarrow> (unit, string) world" where
  "scenario meta answer engine =
     \<lparr>table_identifier_prompt = [(''system'', ''Select the tables''), (''user'', ''{user_input}'')],
      sql_query_generation_prompt = [(''system'', ''Write queries''), (''user'', ''{question}'')],
      sql_examples = ''sql_examples.yaml'',
      metadata = meta,
      read_yaml = (\<lambda>path. Inr (Some example_library)),
      relevance_engine =
        (\<lambda>msgs. Inr (answer, \<lparr>completion_tokens = 12, prompt_tokens = 300\<rparr>)),
      query_engine = engine,
      loads_tables = scenario_tables,
      loads_arguments = scenario_arguments,
      sqlite_run = scenario_sqlite,
      infer_dtypes = (\<lambda>rows. rows),
      eval_other = (\<lambda>name args db. Inl NameError),
      str_cell = (\<lambda>c. c),
      to_json_error = (\<lambda>df. None),
      analytical_connect = None\<rparr>"

definition call :: "string \<Rightarrow> tool_call" where
  "call text = \<lparr>function_name = ''execute_sql_query'', arguments = text\<rparr>"

text \<open>An engine that asks for the same query in every round and never sets the stop flag.\<close>

definition never_stop_engine :: "message list \<Rightarrow> exn + response" where
  "never_stop_engine msgs =
     Inr \<lparr>tool_calls = Some [call ''run''],
          token_usage = \<lparr>completion_tokens = 10, prompt_tokens = 100\<rparr>\<rparr>"

text \<open>
  An engine that answers the first request (two messages) with a mistyped query and every
  later one with three invocations whose stop flags are false, true, false.
\<close>

definition first_usage :: usage where
  "first_usage = \<lparr>completion_tokens = 1000, prompt_tokens = 2000\<rparr>"

definition second_usage :: usage where
  "second_usage = \<lparr>completion_tokens = 10, prompt_tokens = 2100\<rparr>"

definition two_round_engine :: "message list \<Rightarrow> exn + response" where
  "two_round_engine msgs =
     (if length msgs = 2
      then Inr \<lparr>tool_calls = Some [call ''typo''], token_usage = first_usage\<rparr>
      else Inr \<lparr>tool_calls = Some [call ''run'', call ''last'', call ''run''],
                token_usage = second_usage\<rparr>)"

definition two_round_world :: "(unit, string) world" where
  "two_round_world = scenario scenario_metadata ''income'' two_round_engine"

definition never_stop_world :: "(unit, string) world" where
  "never_stop_world = scenario scenario_metadata ''income'' never_stop_engine"

text \<open>The engine names a table the catalog does not hold.\<close>

definition ghost_world :: "(unit, string) world" where
  "ghost_world = scenario scenario_metadata ''ghost'' never_stop_engine"

text \<open>The metadata store cannot be opened.\<close>

definition unreachable_world :: "(unit, string) world" where
  "unreachable_world =
     scenario (scenario_metadata\<lparr>connect_failure := Some OperationalError\<rparr>) ''income''
       never_stop_engine"

definition question :: string where
  "question = ''What is EBITDA in 2021 and 2022?''"

text \<open>The loop variables before the first round of the question, and after each round.\<close>

definition initial_prompt :: "message list" where
  "initial_prompt =
     [(''system'', QueryGenerationContext ''Write queries''
         [[(''question'', YStr ''What is EBITDA in 2021?''),
           (''sql_query'', YStr ''SELECT Value FROM IncomeStmt'')],
          [(''question'', YStr ''How many rows?''), (''sql_query'', YStr ''SELECT 1'')]]
         [\<lparr>detail_name = ''IncomeStmt'',
           detail_description = Some ''Income statement lines by year'',
           detail_schema = ''LineItem TEXT, Year TEXT, Value REAL''\<rparr>]),
      (''user'', QueryGenerationRequest ''{question}'' ''What is EBITDA in 2021 and 2022?'' None)]"

definition initial_state :: "(unit, string) loop_state" where
  "initial_state =
     \<lparr>stop = False, formatted_SQL_prompt = initial_prompt,
      all_results = [], all_results_db = [], cost = None, store = ()\<rparr>"

definition income_text :: string where
  "income_text =
     ''Year'' @ [CHR 0x09] @ ''Value'' @ [CHR 0x0A] @
     ''2021'' @ [CHR 0x09] @ ''192'' @ [CHR 0x0A] @
     ''2022'' @ [CHR 0x09] @ ''210''"

definition income_frame :: "string dataframe" where
  "income_frame =
     \<lparr>columns = [''Year'', ''Value''], index = [0, 1],
      cells = [[''2021'', ''192''], [''2022'', ''210'']]\<rparr>"

definition round1_results :: "string entry list" where
  "round1_results = [\<lparr>sql_query = JStr ''SELEC Year FROM IncomeStmt'', result = []\<rparr>]"

definition round1_results_db :: "string serialized entry list" where
  "round1_results_db =
     [\<lparr>sql_query = JStr ''SELEC Year FROM IncomeStmt'',
       result = ToJsonRecords \<lparr>columns = [], index = [], cells = []\<rparr>\<rparr>]"

definition round2_results :: "string entry list" where
  "round2_results =
     [\<lparr>sql_query = JStr ''SELECT Year, Value FROM IncomeStmt'', result = income_text\<rparr>,
      \<lparr>sql_query = JStr ''SELECT Year, Value FROM IncomeStmt'', result = income_text\<rparr>,
      \<lparr>sql_query = JStr ''SELECT Year, Value FROM IncomeStmt'', result = income_text\<rparr>]"

definition round2_results_db :: "string serialized entry list" where
  "round2_results_db =
     [\<lparr>sql_query = JStr ''SELECT Year, Value FROM IncomeStmt'',
       result = ToJsonRecords income_frame\<rparr>,
      \<lparr>sql_query = JStr ''SELECT Year, Value FROM IncomeStmt'',
       result = ToJsonRecords income_frame\<rparr>,
      \<lparr>sql_query = JStr ''SELECT Year, Value FROM IncomeStmt'',
       result = ToJsonRecords income_frame\<rparr>]"

definition state_after_round1 :: "(unit, string) loop_state" where
  "state_after_round1 =
     \<lparr>stop = False,
      formatted_SQL_prompt = initial_prompt @ [(''assistant'', IterationReport 1 round1_results)],
      all_results = [round1_results], all_results_db = [round1_results_db],
      cost = Some (round_cost first_usage), store = ()\<rparr>"

definition state_after_round2 :: "(unit, string) loop_state" where
  "state_after_round2 =
     \<lparr>stop = True,
      formatted_SQL_prompt =
        initial_prompt @ [(''assistant'', IterationReport 1 round1_results),
                          (''assistant'', IterationReport 2 round2_results)],
      all_results = [round1_results, round2_results],
      all_results_db = [round1_results_db, round2_results_db],
      cost = Some (round_cost second_usage), store = ()\<rparr>"

text \<open>A store whose answer has two columns of the same name.\<close>

definition duplicate_sqlite :: "(unit, string) sqlite" where
  "duplicate_sqlite db q = (Inr ([[''1'', ''1'']], Some [''a'', ''a'']), db)"

definition duplicate_world :: "(unit, string) world" where
  "duplicate_world = never_stop_world\<lparr>sqlite_run := duplicate_sqlite\<rparr>"

text \<open>The loop variables of the never-stopping engine after four and after five rounds.\<close>

definition run_results :: "string entry list" where
  "run_results =
     [\<lparr>sql_query = JStr ''SELECT Year, Value FROM IncomeStmt'', result = income_text\<rparr>]"

definition run_results_db :: "string serialized entry list" where
  "run_results_db =
     [\<lparr>sql_query = JStr ''SELECT Year, Value FROM IncomeStmt'',
       result = ToJsonRecords income_frame\<rparr>]"

definition never_stop_state4 :: "(unit, string) loop_state" where
  "never_stop_state4 =
     \<lparr>stop = False,
      formatted_SQL_prompt =
        initial_prompt @ [(''assistant'', IterationReport 1 run_results),
                          (''assistant'', IterationReport 2 run_results),
                          (''assistant'', IterationReport 3 run_results),
                          (''assistant'', IterationReport 4 run_results)],
      all_results = [run_results, run_results, run_results, run_results],
      all_results_db = [run_results_db, run_results_db, run_results_db, run_results_db],
      cost = Some (round_cost \<lparr>completion_tokens = 10, prompt_tokens = 100\<rparr>),
      store = ()\<rparr>"

definition never_stop_state5 :: "(unit, string) loop_state" where
  "never_stop_state5 =
     \<lparr>stop = False,
      formatted_SQL_prompt =
        initial_prompt @ [(''assistant'', IterationReport 1 run_results),
                          (''assistant'', IterationReport 2 run_results),
                          (''assistant'', IterationReport 3 run_results),
                          (''assistant'', IterationReport 4 run_results),
                          (''assistant'', IterationReport 5 run_results)],
      all_results = [run_results, run_results, run_results, run_results, run_results],
      all_results_db =
        [run_results_db, run_results_db, run_results_db, run_results_db, run_results_db],
      cost = Some (round_cost \<lparr>completion_tokens = 10, prompt_tokens = 100\<rparr>),
      store = ()\<rparr>"

section \<open>Properties of the leaf components\<close>

lemma filter_examples_acc:
  "list_all (\<lambda>ex. dict_get ex ''relevant_tables'' (YSeq []) \<noteq> YNull) examples \<Longrightarrow>
   filter_examples target examples acc =
     Inr (acc @ map drop_relevant_tables
            (filter (\<lambda>ex. set (required_tables ex) \<subseteq> set target) examples))"
proof (induction examples arbitrary: acc)
  case Nil
  show ?case by simp
next
  case (Cons ex rest)
  from Cons.prems have nn: "dict_get ex ''relevant_tables'' (YSeq []) \<noteq> YNull"
    and rest: "list_all (\<lambda>ex. dict_get ex ''relevant_tables'' (YSeq []) \<noteq> YNull) rest"
    by simp_all
  from nn obtain ts where ts: "py_set (dict_get ex ''relevant_tables'' (YSeq [])) = Inr ts"
    by (cases "dict_get ex ''relevant_tables'' (YSeq [])") simp_all
  show ?case
    using Cons.IH [OF rest] ts by (simp add: required_tables_def)
qed

lemma drop_relevant_tables_no_key:
  "map_of (drop_relevant_tables ex) ''relevant_tables'' = None"
  unfolding drop_relevant_tables_def
  by (induction ex) auto

text \<open>
  C7. When the example library loads and every \<open>relevant_tables\<close> field is a collection
  (not null), the filter returns, in library order, exactly the examples whose required
  tables all belong to the selected tables, each without its \<open>relevant_tables\<close> field; an
  example that requires no table is always among them.
\<close>

theorem get_relevant_examples_subset_filter:
  assumes loaded: "reader path = Inr (Some examples)"
    and sets: "list_all (\<lambda>ex. dict_get ex ''relevant_tables'' (YSeq []) \<noteq> YNull) examples"
  shows "\<exists>kept. get_relevant_examples reader path target = Inr kept
           \<and> kept = map drop_relevant_tables
                      (filter (\<lambda>ex. set (required_tables ex) \<subseteq> set target) examples)
           \<and> (\<forall>ex \<in> set examples. required_tables ex = [] \<longrightarrow> drop_relevant_tables ex \<in> set kept)
           \<and> list_all (\<lambda>ex. map_of ex ''relevant_tables'' = None) kept"
proof -
  let ?kept = "map drop_relevant_tables
                 (filter (\<lambda>ex. set (required_tables ex) \<subseteq> set target) examples)"
  have eq: "get_relevant_examples reader path target = Inr ?kept"
    using loaded filter_examples_acc [OF sets, of target "[]"]
    by (simp add: get_relevant_examples_def)
  have incl: "\<forall>ex \<in> set examples. required_tables ex = [] \<longrightarrow> drop_relevant_tables ex \<in> set ?kept"
    by auto
  have nokey: "list_all (\<lambda>ex. map_of ex ''relevant_tables'' = None) ?kept"
    by (simp add: list_all_iff drop_relevant_tables_no_key)
  from eq incl nokey show ?thesis by blast
qed

theorem get_relevant_examples_subset_filter_witness:
  "get_relevant_examples (\<lambda>p. Inr (Some example_library)) ''sql_examples.yaml'' [''IncomeStmt''] =
     Inr [[(''question'', YStr ''What is EBITDA in 2021?''),
           (''sql_query'', YStr ''SELECT Value FROM IncomeStmt'')],
          [(''question'', YStr ''How many rows?''),
           (''sql_query'', YStr ''SELECT 1'')]]"
proof -
  have sets: "list_all (\<lambda>ex. dict_get ex ''relevant_tables'' (YSeq []) \<noteq> YNull) example_library"
    by (simp add: example_library_def dict_get_def)
  have kept: "map drop_relevant_tables
                (filter (\<lambda>ex. set (required_tables ex) \<subseteq> set [''IncomeStmt'']) example_library) =
              [[(''question'', YStr ''What is EBITDA in 2021?''),
                (''sql_query'', YStr ''SELECT Value FROM IncomeStmt'')],
               [(''question'', YStr ''How many rows?''),
                (''sql_query'', YStr ''SELECT 1'')]]"
    by code_simp
  from get_relevant_examples_subset_filter
         [where reader = "\<lambda>p. Inr (Some example_library)" and path = "''sql_examples.yaml''"
            and examples = example_library and target = "[''IncomeStmt'']", OF _ sets]
  show ?thesis
    unfolding kept by auto
qed

text \<open>
  C8. A tabular result without columns is rendered as the empty string, whatever the
  separators and the header and index flags are.
\<close>

theorem format_dataframe_no_columns:
  "columns data = [] \<Longrightarrow>
   format_dataframe str_of data row_separator col_separator add_headers add_indices = []"
  by (simp add: format_dataframe_def)

theorem format_dataframe_no_columns_witness:
  "columns \<lparr>columns = [], index = [0, 1], cells = [[], []] :: string list list\<rparr> = []
   \<and> format_dataframe (\<lambda>c. c) \<lparr>columns = [], index = [0, 1], cells = [[], []]\<rparr>
         ''; '' '', '' True True = []"
  using format_dataframe_no_columns
          [of "\<lparr>columns = [], index = [0, 1], cells = [[], []] :: string list list\<rparr>"
              "\<lambda>c. c" "''; ''" "'', ''" True True]
  by simp

text \<open>
  C9. The result of the Query Executor, and the store it leaves, depend on the query and
  the store only: the explanation and the stop flag do not influence them.
\<close>

theorem execute_sql_query_ignores_explanation_and_stop:
  "execute_sql_query run infer db q explanation1 stop1 =
   execute_sql_query run infer db q explanation2 stop2"
  by (simp add: execute_sql_query_def)

section \<open>Invariants of the dispatch loop\<close>

lemma run_tool_calls_step:
  assumes "run_tool_calls W (tc # tcs) (r, rdb, sg, db) = Inr out"
  obtains args res db1 machine q where
    "loads_arguments W (arguments tc) = Inr args"
    "eval_call W (function_name tc) args db = Inr (res, db1)"
    "serializable_result_db (to_json_error W) res = Inr machine"
    "map_of args ''sql_query'' = Some q"
    "run_tool_calls W tcs
       (r @ [\<lparr>sql_query = q, result = serializable_result (str_cell W) res\<rparr>],
        rdb @ [\<lparr>sql_query = q, result = machine\<rparr>],
        sg @ [is_True (map_of args ''stop'')], db1) = Inr out"
  using assms by (auto split: sum.splits option.splits prod.splits)

lemma run_tool_calls_aligned:
  "run_tool_calls W tcs (r, rdb, sg, db) = Inr (r', rdb', sg', db') \<Longrightarrow>
   map sql_query r = map sql_query rdb \<Longrightarrow>
   map sql_query r' = map sql_query rdb'"
proof (induction tcs arbitrary: r rdb sg db)
  case Nil
  then show ?case by simp
next
  case (Cons tc tcs)
  from Cons.prems(1) show ?case
  proof (rule run_tool_calls_step)
    fix args res db1 machine q
    assume "run_tool_calls W tcs
       (r @ [\<lparr>sql_query = q, result = serializable_result (str_cell W) res\<rparr>],
        rdb @ [\<lparr>sql_query = q, result = machine\<rparr>],
        sg @ [is_True (map_of args ''stop'')], db1) = Inr (r', rdb', sg', db')"
    then show ?thesis
      by (rule Cons.IH) (simp add: Cons.prems(2))
  qed
qed

lemma run_tool_calls_signals:
  "run_tool_calls W tcs (r, rdb, sg, db) = Inr (r', rdb', sg', db') \<Longrightarrow>
   sg' = sg @ map (call_sets_stop W) tcs
   \<and> (\<exists>es. r' = r @ es \<and> map sql_query es = map (call_query W) tcs)
   \<and> (\<exists>es. rdb' = rdb @ es \<and> map sql_query es = map (call_query W) tcs)"
proof (induction tcs arbitrary: r rdb sg db)
  case Nil
  then show ?case by simp
next
  case (Cons tc tcs)
  from Cons.prems(1) show ?case
  proof (rule run_tool_calls_step)
    fix args res db1 machine q
    assume a: "loads_arguments W (arguments tc) = Inr args"
      and q: "map_of args ''sql_query'' = Some q"
      and step: "run_tool_calls W tcs
       (r @ [\<lparr>sql_query = q, result = serializable_result (str_cell W) res\<rparr>],
        rdb @ [\<lparr>sql_query = q, result = machine\<rparr>],
        sg @ [is_True (map_of args ''stop'')], db1) = Inr (r', rdb', sg', db')"
    from a q have cq: "call_query W tc = q"
      by (simp add: call_query_def dict_get_def)
    from Cons.IH [OF step] obtain es esdb where
      sg': "sg' = (sg @ [is_True (map_of args ''stop'')]) @ map (call_sets_stop W) tcs"
      and r': "r' = (r @ [\<lparr>sql_query = q, result = serializable_result (str_cell W) res\<rparr>]) @ es"
      and es: "map sql_query es = map (call_query W) tcs"
      and rdb': "rdb' = (rdb @ [\<lparr>sql_query = q, result = machine\<rparr>]) @ esdb"
      and esdb: "map sql_query esdb = map (call_query W) tcs"
      by blast
    have "sg' = sg @ map (call_sets_stop W) (tc # tcs)"
      using sg' a by (simp add: call_sets_stop_def)
    moreover have "\<exists>es'. r' = r @ es' \<and> map sql_query es' = map (call_query W) (tc # tcs)"
      using r' es cq by simp
    moreover have "\<exists>es'. rdb' = rdb @ es' \<and> map sql_query es' = map (call_query W) (tc # tcs)"
      using rdb' esdb cq by simp
    ultimately show ?thesis by blast
  qed
qed

lemma run_round_cases:
  assumes "run_round W count st = Inr st'"
  obtains resp tcs r rdb sg db' where
    "query_engine W (formatted_SQL_prompt st) = Inr resp"
    "tool_calls resp = Some tcs"
    "run_tool_calls W tcs ([], [], [], store st) = Inr (r, rdb, sg, db')"
    "st' = \<lparr>stop = (if list_ex (\<lambda>b. b) sg then True else stop st),
           formatted_SQL_prompt = formatted_SQL_prompt st @ [(''assistant'', IterationReport count r)],
           all_results = all_results st @ [r],
           all_results_db = all_results_db st @ [rdb],
           cost = Some (round_cost (token_usage resp)),
           store = db'\<rparr>"
  using assms unfolding run_round_def
  by (auto split: sum.splits option.splits prod.splits)

lemma list_ex_id_map: "list_ex (\<lambda>b. b) (map f xs) = list_ex f xs"
  by (induction xs) auto

lemma run_round_effect:
  assumes rr: "run_round W count st = Inr st'"
    and eng: "query_engine W (formatted_SQL_prompt st) = Inr resp"
    and tcs: "tool_calls resp = Some tcs"
  shows "stop st' = (stop st \<or> list_ex (call_sets_stop W) tcs)"
    and "\<exists>r. all_results st' = all_results st @ [r] \<and> map sql_query r = map (call_query W) tcs"
    and "\<exists>rdb. all_results_db st' = all_results_db st @ [rdb]
           \<and> map sql_query rdb = map (call_query W) tcs"
    and "cost st' = Some (round_cost (token_usage resp))"
proof -
  from rr obtain resp' tcs' r rdb sg db' where
    e: "query_engine W (formatted_SQL_prompt st) = Inr resp'"
    and t: "tool_calls resp' = Some tcs'"
    and run: "run_tool_calls W tcs' ([], [], [], store st) = Inr (r, rdb, sg, db')"
    and st': "st' = \<lparr>stop = (if list_ex (\<lambda>b. b) sg then True else stop st),
           formatted_SQL_prompt = formatted_SQL_prompt st @ [(''assistant'', IterationReport count r)],
           all_results = all_results st @ [r],
           all_results_db = all_results_db st @ [rdb],
           cost = Some (round_cost (token_usage resp')),
           store = db'\<rparr>"
    by (rule run_round_cases)
  from e eng have [simp]: "resp' = resp" by simp
  from t tcs have [simp]: "tcs' = tcs" by simp
  from run_tool_calls_signals [OF run]
  have sg: "sg = map (call_sets_stop W) tcs" and lr: "map sql_query r = map (call_query W) tcs"
    and lrdb: "map sql_query rdb = map (call_query W) tcs"
    by simp_all
  show "stop st' = (stop st \<or> list_ex (call_sets_stop W) tcs)"
    by (simp add: st' sg list_ex_id_map)
  show "\<exists>r. all_results st' = all_results st @ [r] \<and> map sql_query r = map (call_query W) tcs"
    by (simp add: st' lr)
  show "\<exists>rdb. all_results_db st' = all_results_db st @ [rdb]
           \<and> map sql_query rdb = map (call_query W) tcs"
    by (simp add: st' lrdb)
  show "cost st' = Some (round_cost (token_usage resp))"
    by (simp add: st')
qed

lemma run_round_length:
  assumes "run_round W count st = Inr st'"
  shows "length (all_results st') = Suc (length (all_results st))"
    and "length (all_results_db st') = Suc (length (all_results_db st))"
  using assms by (auto elim!: run_round_cases)

lemma run_round_aligned:
  assumes "run_round W count st = Inr st'"
    and "list_all2 (\<lambda>round_db round. map sql_query round_db = map sql_query round)
           (all_results_db st) (all_results st)"
  shows "list_all2 (\<lambda>round_db round. map sql_query round_db = map sql_query round)
           (all_results_db st') (all_results st')"
proof -
  from assms(1) obtain resp tcs r rdb sg db' where
    run: "run_tool_calls W tcs ([], [], [], store st) = Inr (r, rdb, sg, db')"
    and ar: "all_results st' = all_results st @ [r]"
    and ardb: "all_results_db st' = all_results_db st @ [rdb]"
    by (auto elim!: run_round_cases)
  from run_tool_calls_aligned [OF run] have "map sql_query rdb = map sql_query r" by simp
  with assms(2) show ?thesis
    by (simp add: ar ardb list_all2_appendI)
qed

lemma for_rounds_length:
  "for_rounds W counts st = Inr st' \<Longrightarrow>
   length (all_results st) \<le> length (all_results st')
   \<and> length (all_results st') \<le> length (all_results st) + length counts
   \<and> length (all_results_db st') \<le> length (all_results_db st) + length counts"
proof (induction counts arbitrary: st)
  case Nil
  then show ?case by simp
next
  case (Cons count counts)
  show ?case
  proof (cases "stop st")
    case True
    with Cons.prems show ?thesis by simp
  next
    case False
    with Cons.prems obtain st1 where r: "run_round W count st = Inr st1"
      and rest: "for_rounds W counts st1 = Inr st'"
      by (auto split: sum.splits)
    from Cons.IH [OF rest] run_round_length [OF r] show ?thesis by simp
  qed
qed

lemma for_rounds_aligned:
  "for_rounds W counts st = Inr st' \<Longrightarrow>
   list_all2 (\<lambda>round_db round. map sql_query round_db = map sql_query round)
     (all_results_db st) (all_results st) \<Longrightarrow>
   list_all2 (\<lambda>round_db round. map sql_query round_db = map sql_query round)
     (all_results_db st') (all_results st')"
proof (induction counts arbitrary: st)
  case Nil
  then show ?case by simp
next
  case (Cons count counts)
  show ?case
  proof (cases "stop st")
    case True
    with Cons.prems show ?thesis by simp
  next
    case False
    with Cons.prems(1) obtain st1 where r: "run_round W count st = Inr st1"
      and rest: "for_rounds W counts st1 = Inr st'"
      by (auto split: sum.splits)
    from Cons.IH [OF rest run_round_aligned [OF r Cons.prems(2)]] show ?thesis .
  qed
qed

lemma generate_cases:
  assumes "generate_sql_query_multi_tables W user_input keywords market_type rel_tables db =
             Inr (results_db, results, c)"
  obtains st0 st where
    "all_results st0 = []" "all_results_db st0 = []" "\<not> stop st0" "store st0 = db"
    "for_rounds W [1..<6] st0 = Inr st"
    "all_results st = results" "all_results_db st = results_db" "cost st = Some c"
proof -
  from assms obtain p st where
    run: "for_rounds W [1..<6]
            \<lparr>stop = False, formatted_SQL_prompt = p, all_results = [], all_results_db = [],
             cost = None, store = db\<rparr> = Inr st"
    and res: "all_results st = results" "all_results_db st = results_db" "cost st = Some c"
    unfolding generate_sql_query_multi_tables_def
    by (auto split: sum.splits option.splits prod.splits list.splits)
  show thesis
    by (rule that [OF _ _ _ _ run res]) simp_all
qed

lemma eval_call_well_formed:
  assumes "well_formed_call W tc" and "loads_arguments W (arguments tc) = Inr args"
  shows "\<exists>expl. map_of args ''query_explanation'' = Some expl \<and>
           eval_call W (function_name tc) args db =
             Inr (PyDataFrame
                    (fst (execute_sql_query (sqlite_run W) (infer_dtypes W) db (call_query W tc)
                            expl (dict_get args ''stop'' (JBool False)))),
                  snd (execute_sql_query (sqlite_run W) (infer_dtypes W) db (call_query W tc)
                         expl (dict_get args ''stop'' (JBool False))))
         \<and> map_of args ''sql_query'' = Some (call_query W tc)"
  using assms
  by (auto simp: well_formed_call_def eval_call_def call_query_def dict_get_def
           split: prod.splits)

lemma execute_sql_query_columns:
  assumes "\<forall>db q rows cols. fst (run db q) = Inr (rows, Some cols) \<longrightarrow> distinct cols"
  shows "distinct (columns (fst (execute_sql_query run infer db q expl flag)))"
proof (cases "run db q")
  case (Pair outcome db')
  show ?thesis
  proof (cases outcome)
    case (Inl e)
    with Pair show ?thesis
      by (simp add: execute_sql_query_def DataFrame_empty_def)
  next
    case (Inr fetched)
    obtain rows description where fetched: "fetched = (rows, description)"
      by (cases fetched)
    show ?thesis
    proof (cases description)
      case None
      with Pair Inr fetched show ?thesis
        by (simp add: execute_sql_query_def pd_DataFrame_def DataFrame_empty_def)
    next
      case (Some cols)
      from Pair Inr fetched Some have "fst (run db q) = Inr (rows, Some cols)" by simp
      with assms have "distinct cols" by blast
      with Pair Inr fetched Some show ?thesis
        by (simp add: execute_sql_query_def pd_DataFrame_def DataFrame_empty_def)
    qed
  qed
qed

lemma run_tool_calls_total:
  assumes uniq: "\<forall>db q rows cols. fst (sqlite_run W db q) = Inr (rows, Some cols) \<longrightarrow> distinct cols"
    and enc: "\<forall>df. to_json_error W df = None"
  shows "list_all (well_formed_call W) tcs \<Longrightarrow>
         \<exists>out. run_tool_calls W tcs (r, rdb, sg, db) = Inr out"
proof (induction tcs arbitrary: r rdb sg db)
  case Nil
  show ?case by simp
next
  case (Cons tc tcs)
  from Cons.prems have wf: "well_formed_call W tc" and rest: "list_all (well_formed_call W) tcs"
    by simp_all
  from wf obtain args where a: "loads_arguments W (arguments tc) = Inr args"
    by (auto simp: well_formed_call_def split: sum.splits)
  from eval_call_well_formed [OF wf a, of db] obtain expl where
    ev: "eval_call W (function_name tc) args db =
             Inr (PyDataFrame
                    (fst (execute_sql_query (sqlite_run W) (infer_dtypes W) db (call_query W tc)
                            expl (dict_get args ''stop'' (JBool False)))),
                  snd (execute_sql_query (sqlite_run W) (infer_dtypes W) db (call_query W tc)
                         expl (dict_get args ''stop'' (JBool False))))"
    and q: "map_of args ''sql_query'' = Some (call_query W tc)"
    by blast
  have machine: "serializable_result_db (to_json_error W)
                   (PyDataFrame
                      (fst (execute_sql_query (sqlite_run W) (infer_dtypes W) db (call_query W tc)
                              expl (dict_get args ''stop'' (JBool False))))) =
                 Inr (ToJsonRecords
                        (fst (execute_sql_query (sqlite_run W) (infer_dtypes W) db
                                (call_query W tc) expl (dict_get args ''stop'' (JBool False)))))"
    using execute_sql_query_columns [OF uniq] enc
    by (simp add: serializable_result_db_def)
  from Cons.IH [OF rest] show ?case
    by (simp add: a ev q machine)
qed

lemma run_round_total:
  assumes "\<forall>db q rows cols. fst (sqlite_run W db q) = Inr (rows, Some cols) \<longrightarrow> distinct cols"
    and "\<forall>df. to_json_error W df = None"
    and "query_engine W (formatted_SQL_prompt st) = Inr resp"
    and "tool_calls resp = Some tcs"
    and "list_all (well_formed_call W) tcs"
  shows "\<exists>st'. run_round W count st = Inr st'"
proof -
  from run_tool_calls_total [OF assms(1,2,5)] obtain out where
    "run_tool_calls W tcs ([], [], [], store st) = Inr out" by blast
  then show ?thesis
    using assms(3,4) by (cases out) (simp add: run_round_def)
qed

lemma for_rounds_never_stop:
  assumes eng: "\<forall>msgs. \<exists>resp tcs. query_engine W msgs = Inr resp \<and> tool_calls resp = Some tcs
                  \<and> list_all (well_formed_call W) tcs \<and> \<not> list_ex (call_sets_stop W) tcs"
    and uniq: "\<forall>db q rows cols. fst (sqlite_run W db q) = Inr (rows, Some cols) \<longrightarrow> distinct cols"
    and enc: "\<forall>df. to_json_error W df = None"
  shows "\<not> stop st \<Longrightarrow>
         \<exists>st'. for_rounds W counts st = Inr st'
               \<and> length (all_results st') = length (all_results st) + length counts
               \<and> \<not> stop st'"
proof (induction counts arbitrary: st)
  case Nil
  then show ?case by simp
next
  case (Cons count counts)
  from eng obtain resp tcs where e: "query_engine W (formatted_SQL_prompt st) = Inr resp"
    and t: "tool_calls resp = Some tcs" and wf: "list_all (well_formed_call W) tcs"
    and ns: "\<not> list_ex (call_sets_stop W) tcs"
    by blast
  from run_round_total [OF uniq enc e t wf] obtain st1 where r: "run_round W count st = Inr st1"
    by blast
  from run_round_effect(1) [OF r e t] Cons.prems ns have s1: "\<not> stop st1" by simp
  from Cons.IH [OF s1] obtain st' where
    f: "for_rounds W counts st1 = Inr st'"
    and l: "length (all_results st') = length (all_results st1) + length counts"
    and s': "\<not> stop st'"
    by blast
  from run_round_length(1) [OF r] l
  have "length (all_results st') = length (all_results st) + length (count # counts)"
    by simp
  with f s' r Cons.prems show ?case by simp
qed

lemma for_rounds_without_stop:
  "for_rounds W counts st = Inr st' \<Longrightarrow> \<not> stop st' \<Longrightarrow>
   length (all_results st') = length (all_results st) + length counts"
proof (induction counts arbitrary: st)
  case Nil
  then show ?case by simp
next
  case (Cons count counts)
  show ?case
  proof (cases "stop st")
    case True
    with Cons.prems show ?thesis by simp
  next
    case False
    with Cons.prems(1) obtain st1 where r: "run_round W count st = Inr st1"
      and rest: "for_rounds W counts st1 = Inr st'"
      by (auto split: sum.splits)
    from Cons.IH [OF rest Cons.prems(2)] run_round_length(1) [OF r] show ?thesis by simp
  qed
qed




section \<open>The scenarios, evaluated\<close>

lemmas model_defs =
  generate_sql_query_multi_tables_def get_table_schemas_def get_table_comments_of_rel_tables_def
  get_relevant_examples_def run_round_def eval_call_def execute_sql_query_def pd_DataFrame_def
  serializable_result_def serializable_result_db_def df_empty_def format_dataframe_def
  table_details_def dict_get_def is_sqlite_error_def DataFrame_empty_def
  required_tables_def drop_relevant_tables_def get_table_info_def description_or_default_def
  get_relevant_tables_def select_rel_tables_def pipeline_body_def pipeline_handler_def
  sql_pipeline_def well_formed_call_def call_sets_stop_def call_query_def

lemmas scenario_defs =
  scenario_def scenario_metadata_def scenario_arguments_def scenario_sqlite_def
  scenario_tables_def call_def never_stop_engine_def two_round_engine_def initial_state_def
  example_library_def two_round_world_def never_stop_world_def ghost_world_def
  unreachable_world_def question_def initial_prompt_def income_text_def income_frame_def
  round1_results_def round1_results_db_def round2_results_def round2_results_db_def
  state_after_round1_def state_after_round2_def

lemmas never_stop_defs =
  run_results_def run_results_db_def never_stop_state4_def never_stop_state5_def


lemma range_1_6: "[Suc 0..<6] = [1, 2, 3, 4, 5]"
  by code_simp



lemma two_round_first: "run_round two_round_world 1 initial_state = Inr state_after_round1"
  by (simp add: model_defs scenario_defs)

lemma two_round_second: "run_round two_round_world 2 state_after_round1 = Inr state_after_round2"
  by (simp add: model_defs scenario_defs)

lemma two_round_session:
  "generate_sql_query_multi_tables two_round_world question None ''finance'' [''IncomeStmt''] () =
     Inr ([round1_results_db, round2_results_db], [round1_results, round2_results],
          round_cost second_usage)"
  by (simp add: model_defs scenario_defs range_1_6)

text \<open>
  A result with two columns of the same name ends the session: \<open>to_json\<close> raises in the
  first round.
\<close>

lemma duplicate_columns_abort:
  "run_round duplicate_world 1 initial_state = Inl ValueError"
  "for_rounds duplicate_world [1..<6] initial_state = Inl ValueError"
  by (simp_all add: model_defs scenario_defs duplicate_sqlite_def duplicate_world_def range_1_6)

lemma never_stop_session:
  "map_sum id (\<lambda>s. (length (all_results s), stop s))
     (for_rounds never_stop_world [1..<6] initial_state) = Inr (5, False)"
  by (simp add: model_defs scenario_defs range_1_6)

section \<open>The dispatch loop and the pipeline\<close>

text \<open>
  C10. The machine-form and the display-form transcripts returned by the loop have the same
  number of rounds, corresponding rounds have the same number of entries, and corresponding
  entries hold the same \<open>sql_query\<close>.
\<close>

theorem transcripts_aligned:
  assumes "generate_sql_query_multi_tables W user_input keywords market_type rel_tables db =
             Inr (results_db, results, c)"
  shows "length results_db = length results
         \<and> list_all2 (\<lambda>round_db round. length round_db = length round
                          \<and> map sql_query round_db = map sql_query round)
              results_db results"
proof -
  from assms obtain st0 st where e: "all_results st0 = []" "all_results_db st0 = []"
    and run: "for_rounds W [1..<6] st0 = Inr st"
    and res: "all_results st = results" "all_results_db st = results_db"
    by (rule generate_cases)
  have "list_all2 (\<lambda>round_db round. map sql_query round_db = map sql_query round)
          (all_results_db st0) (all_results st0)"
    by (simp add: e)
  from for_rounds_aligned [OF run this]
  have al: "list_all2 (\<lambda>round_db round. map sql_query round_db = map sql_query round)
          results_db results"
    by (simp add: res)
  have "list_all2 (\<lambda>round_db round. length round_db = length round
                          \<and> map sql_query round_db = map sql_query round) results_db results"
    by (rule list_all2_mono [OF al]) (auto dest: map_eq_imp_length_eq)
  with al show ?thesis by (auto dest: list_all2_lengthD)
qed

theorem transcripts_aligned_witness:
  "generate_sql_query_multi_tables two_round_world question None ''finance'' [''IncomeStmt''] () =
     Inr ([round1_results_db, round2_results_db], [round1_results, round2_results],
          round_cost second_usage)
   \<and> length [round1_results_db, round2_results_db] = length [round1_results, round2_results]
   \<and> list_all2 (\<lambda>round_db round. length round_db = length round
                    \<and> map sql_query round_db = map sql_query round)
        [round1_results_db, round2_results_db] [round1_results, round2_results]"
  using transcripts_aligned [OF two_round_session] two_round_session by simp

text \<open>
  C4. Whatever the engine answers, a session that returns has at most five rounds in either
  transcript. The loop is a structural recursion over \<open>range(1, 6)\<close>, so every run of it
  ends, by raising or by returning; a run that returns with the stop variable still false
  has executed exactly five rounds. When every answer of the engine consists of well-formed
  invocations none of which sets the stop flag, the store never yields two columns of the
  same name and the JSON encoder raises on no frame, no round raises and the loop returns
  after exactly five rounds.
\<close>

theorem rounds_bounded:
  "(generate_sql_query_multi_tables W user_input kws market_type rel_tables db =
      Inr (results_db, results, c) \<longrightarrow> length results \<le> 5 \<and> length results_db \<le> 5)
   \<and> (for_rounds W [1..<6] st = Inr st1 \<longrightarrow> \<not> stop st1 \<longrightarrow>
        length (all_results st1) = length (all_results st) + 5)
   \<and> ((\<forall>msgs. \<exists>resp tcs. query_engine W msgs = Inr resp \<and> tool_calls resp = Some tcs
            \<and> list_all (well_formed_call W) tcs \<and> \<not> list_ex (call_sets_stop W) tcs) \<longrightarrow>
        (\<forall>db q rows cols. fst (sqlite_run W db q) = Inr (rows, Some cols) \<longrightarrow> distinct cols) \<longrightarrow>
        (\<forall>df. to_json_error W df = None) \<longrightarrow>
        \<not> stop st \<longrightarrow>
        (\<exists>st'. for_rounds W [1..<6] st = Inr st'
               \<and> length (all_results st') = length (all_results st) + 5 \<and> \<not> stop st'))"
proof (intro conjI impI)
  assume g: "generate_sql_query_multi_tables W user_input kws market_type rel_tables db =
      Inr (results_db, results, c)"
  from g obtain st0 st2 where e: "all_results st0 = []" "all_results_db st0 = []"
    and run: "for_rounds W [1..<6] st0 = Inr st2"
    and res: "all_results st2 = results" "all_results_db st2 = results_db"
    by (rule generate_cases)
  from for_rounds_length [OF run] show "length results \<le> 5" by (simp add: e res)
  from for_rounds_length [OF run] show "length results_db \<le> 5" by (simp add: e res)
next
  assume "for_rounds W [1..<6] st = Inr st1" and "\<not> stop st1"
  from for_rounds_without_stop [OF this]
  show "length (all_results st1) = length (all_results st) + 5" by simp
next
  assume eng: "\<forall>msgs. \<exists>resp tcs. query_engine W msgs = Inr resp \<and> tool_calls resp = Some tcs
            \<and> list_all (well_formed_call W) tcs \<and> \<not> list_ex (call_sets_stop W) tcs"
    and uniq: "\<forall>db q rows cols. fst (sqlite_run W db q) = Inr (rows, Some cols) \<longrightarrow> distinct cols"
    and enc: "\<forall>df. to_json_error W df = None"
    and ns: "\<not> stop st"
  from for_rounds_never_stop [OF eng uniq enc ns, of "[1..<6]"]
  show "\<exists>st'. for_rounds W [1..<6] st = Inr st'
               \<and> length (all_results st') = length (all_results st) + 5 \<and> \<not> stop st'"
    by simp
qed

theorem rounds_bounded_witness:
  "generate_sql_query_multi_tables two_round_world question None ''finance'' [''IncomeStmt''] () =
     Inr ([round1_results_db, round2_results_db], [round1_results, round2_results],
          round_cost second_usage)
   \<and> length [round1_results, round2_results] \<le> 5
   \<and> length [round1_results_db, round2_results_db] \<le> 5
   \<and> \<not> stop initial_state
   \<and> for_rounds never_stop_world [1..<6] initial_state = Inr never_stop_state5
   \<and> \<not> stop never_stop_state5
   \<and> length (all_results never_stop_state5) = length (all_results initial_state) + 5
   \<and> (\<exists>st'. for_rounds never_stop_world [1..<6] initial_state = Inr st'
          \<and> length (all_results st') = length (all_results initial_state) + 5 \<and> \<not> stop st')"
proof -
  have engine: "\<forall>msgs. \<exists>resp tcs. query_engine never_stop_world msgs = Inr resp
                  \<and> tool_calls resp = Some tcs
                  \<and> list_all (well_formed_call never_stop_world) tcs
                  \<and> \<not> list_ex (call_sets_stop never_stop_world) tcs"
    by (simp add: model_defs scenario_defs)
  have uniq: "\<forall>db q rows cols.
                fst (sqlite_run never_stop_world db q) = Inr (rows, Some cols) \<longrightarrow> distinct cols"
    by (auto simp: scenario_defs split: if_splits)
  have enc: "\<forall>df. to_json_error never_stop_world df = None"
    by (simp add: scenario_defs)
  have running: "\<not> stop initial_state"
    by (simp add: initial_state_def)
  have five: "for_rounds never_stop_world [1..<6] initial_state = Inr never_stop_state5"
    by (simp add: model_defs scenario_defs never_stop_defs range_1_6)
  have open_end: "\<not> stop never_stop_state5"
    by (simp add: never_stop_state5_def)
  from rounds_bounded
         [where W = two_round_world and user_input = question and kws = None
            and market_type = "''finance''" and rel_tables = "[''IncomeStmt'']" and db = "()"
            and results_db = "[round1_results_db, round2_results_db]"
            and results = "[round1_results, round2_results]"
            and c = "round_cost second_usage"]
  have bound: "length [round1_results, round2_results] \<le> 5
               \<and> length [round1_results_db, round2_results_db] \<le> 5"
    using two_round_session by blast
  from rounds_bounded [where W = never_stop_world and st = initial_state
         and ?st1.0 = never_stop_state5] five open_end
  have cap: "length (all_results never_stop_state5) = length (all_results initial_state) + 5"
    by blast
  from rounds_bounded [where W = never_stop_world and st = initial_state] engine uniq enc running
  have halts: "\<exists>st'. for_rounds never_stop_world [1..<6] initial_state = Inr st'
          \<and> length (all_results st') = length (all_results initial_state) + 5 \<and> \<not> stop st'"
    by blast
  from two_round_session bound running five open_end cap halts show ?thesis by blast
qed






text \<open>
  C2. The loop assigns \<open>cost\<close> in every round instead of adding to it. In the two-round
  session the variable is 1.2528 after the first round and 0.446832 after the second, and
  0.446832, the cost of the last round alone, is what the loop returns: the value decreases
  and is not the total of the two rounds.
\<close>

theorem cost_is_last_round_only:
  "map_sum id cost (run_round two_round_world 1 initial_state) =
     Inr (Some (round_cost first_usage))
   \<and> map_sum id cost (for_rounds two_round_world [1..<6] initial_state) =
       Inr (Some (round_cost second_usage))
   \<and> generate_sql_query_multi_tables two_round_world question None ''finance'' [''IncomeStmt''] () =
       Inr ([round1_results_db, round2_results_db], [round1_results, round2_results],
            round_cost second_usage)
   \<and> round_cost first_usage = 1.2528
   \<and> round_cost second_usage = 0.446832
   \<and> round_cost second_usage < round_cost first_usage
   \<and> round_cost second_usage \<noteq> round_cost first_usage + round_cost second_usage"
proof -
  have c1: "round_cost first_usage = 1.2528"
    by (simp add: round_cost_def first_usage_def)
  have c2: "round_cost second_usage = 0.446832"
    by (simp add: round_cost_def second_usage_def)
  have running: "\<not> stop initial_state" "\<not> stop state_after_round1" "stop state_after_round2"
    by (simp_all add: initial_state_def state_after_round1_def state_after_round2_def)
  have loop: "for_rounds two_round_world [1..<6] initial_state = Inr state_after_round2"
    using two_round_first two_round_second running by (simp add: range_1_6)
  have r1: "map_sum id cost (run_round two_round_world 1 initial_state) =
              Inr (Some (round_cost first_usage))"
    unfolding two_round_first by (simp add: state_after_round1_def)
  have r2: "map_sum id cost (for_rounds two_round_world [1..<6] initial_state) =
              Inr (Some (round_cost second_usage))"
    unfolding loop by (simp add: state_after_round2_def)
  have less: "round_cost second_usage < round_cost first_usage"
    unfolding c1 c2 by simp
  have nsum: "round_cost second_usage \<noteq> round_cost first_usage + round_cost second_usage"
    unfolding c1 c2 by simp
  from r1 r2 two_round_session c1 c2 less nsum show ?thesis
    by (intro conjI)
qed

lemma sql_pipeline_never_sentinel:
  "fst (sql_pipeline W user_input keywords market_type rel_tables error_log db) = error_log
   \<and> snd (sql_pipeline W user_input keywords market_type rel_tables error_log db) \<noteq> Inr Sentinel"
  by (auto simp: sql_pipeline_def pipeline_body_def pipeline_handler_def
           split: option.splits sum.splits prod.splits)

text \<open>
  C3. When the metadata store cannot be opened, \<open>get_table_schemas\<close> raises inside the
  \<open>try\<close> block; the handler then reads the unbound local \<open>all_results\<close>, so the pipeline
  raises \<open>UnboundLocalError\<close> to its caller and the diagnostic log stays as it was. By the
  lemma above this holds for every failure: the tuple \<open>(None, 0)\<close> is never returned and the
  log never grows.
\<close>

theorem hard_failure_escapes:
  "get_table_schemas (metadata unreachable_world) [''IncomeStmt''] = Inl OperationalError
   \<and> sql_pipeline unreachable_world question None ''finance'' None [] () =
       ([], Inl UnboundLocalError)"
  by (simp add: model_defs scenario_defs)










end
